theory Spec2Isabelle
  imports Complex_Main
begin

section \<open>The signalling relay of server.js\<close>

text \<open>
  The relay keeps two registries, \<open>sockets\<close> (socket id to channel, room code and role)
  and \<open>rooms\<close> (room code to admin id and participant set). Every handler of server.js
  reads and mutates them and writes messages to channels. The model passes the two
  registries explicitly, together with \<open>outbox\<close>, the list of the messages written by
  \<open>ws.send\<close> so far, each with the id of the connection whose channel it was written to.
\<close>

subsection \<open>JavaScript values and strings\<close>

text \<open>
  The values \<open>JSON.parse\<close> can return. A property that is absent reads as
  \<open>undefined\<close>: it is \<open>None\<close> of \<open>json option\<close>. A number is kept as a rational (every
  finite double is one); the handlers only ask whether it is zero.
\<close>

datatype json =
    JNull
  | JBool bool
  | JNum rat
  | JStr string
  | JArr "json list"
  | JObj "(string \<times> json) list"

type_synonym payload = "(string \<times> json) list"

datatype error = TypeError

text \<open>JavaScript truthiness: \<open>null\<close>, \<open>false\<close>, \<open>0\<close> and \<open>""\<close> are falsy, as is \<open>undefined\<close>.\<close>

fun truthy_val :: "json \<Rightarrow> bool" where
  "truthy_val JNull = False"
| "truthy_val (JBool b) = b"
| "truthy_val (JNum n) = (n \<noteq> 0)"
| "truthy_val (JStr s) = (s \<noteq> [])"
| "truthy_val (JArr xs) = True"
| "truthy_val (JObj ps) = True"

fun truthy :: "json option \<Rightarrow> bool" where
  "truthy None = False"
| "truthy (Some v) = truthy_val v"

text \<open>
  A JavaScript string is kept as the list of the bytes of its UTF-8 form, so that an
  ASCII character is itself, strings are equal when their lists are, and the empty
  string is the empty list. The two built-ins the code calls on strings,
  \<open>String.prototype.trim\<close> and \<open>String.prototype.toUpperCase\<close>, are not modelled: they are
  the two fields of the parameter \<open>L\<close> that every function calling them takes, and the
  theorems hold for whatever functions they are.
\<close>

record builtins =
  trim :: "string \<Rightarrow> string"
  toUpperCase :: "string \<Rightarrow> string"

text \<open>
  What is known of \<open>toUpperCase\<close> and used for the room codes: on a string of ASCII
  characters it maps \<open>a\<close>..\<open>z\<close> to \<open>A\<close>..\<open>Z\<close>, character by character, and keeps the rest.
  \<open>upper_char\<close> is that map of one ASCII character, and \<open>ascii_upper L\<close> says that the
  \<open>toUpperCase\<close> of \<open>L\<close> is it on ASCII strings; of other strings it says nothing.
\<close>

definition upper_char :: "char \<Rightarrow> char" where
  "upper_char c =
     (case map_of (zip ''abcdefghijklmnopqrstuvwxyz'' ''ABCDEFGHIJKLMNOPQRSTUVWXYZ'') c of
        None \<Rightarrow> c
      | Some d \<Rightarrow> d)"

definition is_ascii :: "char \<Rightarrow> bool" where
  "is_ascii c = ((of_char c :: nat) < 128)"

definition ascii_upper :: "builtins \<Rightarrow> bool" where
  "ascii_upper L = (\<forall>s. list_all is_ascii s \<longrightarrow> toUpperCase L s = map upper_char s)"

text \<open>\<open>s.split("-")\<close>: the pieces of \<open>s\<close> between the dashes; never an empty array.\<close>

fun split_dash :: "string \<Rightarrow> string list" where
  "split_dash [] = [[]]"
| "split_dash (c # cs) =
     (if c = CHR ''-'' then [] # split_dash cs
      else (case split_dash cs of
              [] \<Rightarrow> [[c]]
            | p # ps \<Rightarrow> (c # p) # ps))"

text \<open>
  \<open>shortRoomCode\<close>: \<open>uuid().split("-")[0].toUpperCase()\<close>. The string the generator
  returned is the argument \<open>u\<close>; \<open>split("-")\<close> never returns an empty array, so element 0
  is the head of the list.
\<close>

definition shortRoomCode :: "builtins \<Rightarrow> string \<Rightarrow> string" where
  "shortRoomCode L u = toUpperCase L (hd (split_dash u))"

text \<open>
  The format of the strings the \<open>uuid\<close> library returns (it is not part of the
  repository): five groups of 8, 4, 4, 4 and 12 lower-case hexadecimal digits, with a
  dash between two groups.
\<close>

definition is_hex :: "char \<Rightarrow> bool" where
  "is_hex c = (c \<in> set ''0123456789abcdef'')"

definition is_uuid :: "string \<Rightarrow> bool" where
  "is_uuid u =
     (map length (split_dash u) = [8, 4, 4, 4, 12] \<and>
      list_all (list_all is_hex) (split_dash u))"

subsection \<open>The registries\<close>

datatype role = Admin | Viewer

datatype readyState = CONNECTING | OPEN | CLOSING | CLOSED

text \<open>
  An entry of \<open>sockets\<close>: \<open>{ ws, roomCode, role }\<close>. Of the channel \<open>ws\<close> the model keeps
  its \<open>readyState\<close>, the one thing \<open>safeSend\<close> reads. \<open>null\<close> is \<open>None\<close>.
\<close>

record entry =
  ws :: readyState
  roomCode :: "string option"
  role :: "role option"

text \<open>
  An entry of \<open>rooms\<close>: \<open>{ adminId, participants }\<close>. The participants are a JavaScript
  \<open>Set\<close>: a list without repetition, in insertion order (the order \<open>forEach\<close> visits).
\<close>

record room =
  adminId :: string
  participants :: "string list"

type_synonym message = "string \<times> payload"

record state =
  sockets :: "string \<rightharpoonup> entry"
  rooms :: "string \<rightharpoonup> room"
  outbox :: "(string \<times> message) list"

definition init :: state where
  "init = \<lparr>sockets = Map.empty, rooms = Map.empty, outbox = []\<rparr>"

definition set_add :: "string \<Rightarrow> string list \<Rightarrow> string list" where
  "set_add x xs = (if x \<in> set xs then xs else xs @ [x])"

definition set_delete :: "string \<Rightarrow> string list \<Rightarrow> string list" where
  "set_delete x xs = removeAll x xs"

text \<open>\<open>participants.has(v)\<close> for a value \<open>v\<close> of a message: the members are strings.\<close>

fun set_has :: "string list \<Rightarrow> json \<Rightarrow> bool" where
  "set_has xs (JStr k) = (k \<in> set xs)"
| "set_has xs v = False"

subsection \<open>Sending\<close>

text \<open>
  \<open>safeSend(ws, message)\<close> writes \<open>{ type, ...payload }\<close> to the channel when it is open,
  and does nothing otherwise. \<open>owner\<close> is the id of the connection the channel belongs to.
\<close>

definition safeSend :: "string \<Rightarrow> readyState \<Rightarrow> message \<Rightarrow> state \<Rightarrow> state" where
  "safeSend owner rs m s =
     (if rs \<noteq> OPEN then s else s\<lparr>outbox := outbox s @ [(owner, m)]\<rparr>)"

text \<open>
  \<open>sendToSocket(socketId, type, payload)\<close>. The id may be a value taken from a
  message; the keys of \<open>sockets\<close> are strings, so any other value finds no entry.
\<close>

fun sendToSocket :: "json \<Rightarrow> string \<Rightarrow> payload \<Rightarrow> state \<Rightarrow> state" where
  "sendToSocket (JStr k) ty pl s =
     (case sockets s k of
        None \<Rightarrow> s
      | Some e \<Rightarrow> safeSend k (ws e) (ty, pl) s)"
| "sendToSocket v ty pl s = s"

text \<open>
  What one call \<open>sendToSocket(socketId, type, payload)\<close> writes in state \<open>s\<close>: the
  message, to the channel of \<open>socketId\<close>, when \<open>socketId\<close> is registered and its channel
  is open; nothing otherwise.
\<close>

fun delivered :: "state \<Rightarrow> json \<Rightarrow> message \<Rightarrow> (string \<times> message) list" where
  "delivered s (JStr k) m =
     (case sockets s k of
        None \<Rightarrow> []
      | Some e \<Rightarrow> if ws e = OPEN then [(k, m)] else [])"
| "delivered s v m = []"

subsection \<open>The handlers\<close>

text \<open>The body of the \<open>forEach\<close> of \<open>cleanupSocket\<close>, for one participant.\<close>

definition closeParticipant :: "string \<Rightarrow> state \<Rightarrow> state" where
  "closeParticipant p s =
     (let s1 = sendToSocket (JStr p) ''room_closed'' [] s in
      case sockets s1 p of
        None \<Rightarrow> s1
      | Some e \<Rightarrow> s1\<lparr>sockets := (sockets s1)(p \<mapsto> e\<lparr>roomCode := None, role := None\<rparr>)\<rparr>)"

definition cleanupSocket :: "string \<Rightarrow> state \<Rightarrow> state" where
  "cleanupSocket socketId s =
     (case sockets s socketId of
        None \<Rightarrow> s
      | Some e \<Rightarrow>
          let s1 =
            (case roomCode e of
               None \<Rightarrow> s
             | Some code \<Rightarrow>
                 if code = [] then s
                 else (case rooms s code of
                         None \<Rightarrow> s
                       | Some r \<Rightarrow>
                           if adminId r = socketId then
                             (let s2 = fold closeParticipant (participants r) s
                              in s2\<lparr>rooms := (rooms s2)(code := None)\<rparr>)
                           else
                             s\<lparr>rooms := (rooms s)(code \<mapsto>
                                  r\<lparr>participants := set_delete socketId (participants r)\<rparr>)\<rparr>))
          in s1\<lparr>sockets := (sockets s1)(socketId := None)\<rparr>)"

text \<open>\<open>handleCreateRoom\<close>; \<open>u\<close> is the string \<open>uuid()\<close> returns in \<open>shortRoomCode\<close>.\<close>

definition handleCreateRoom :: "builtins \<Rightarrow> string \<Rightarrow> string \<Rightarrow> state \<Rightarrow> state" where
  "handleCreateRoom L socketId u s =
     (case sockets s socketId of
        None \<Rightarrow> s
      | Some e \<Rightarrow>
          let code = shortRoomCode L u;
              s1 = s\<lparr>rooms := (rooms s)(code \<mapsto> \<lparr>adminId = socketId, participants = []\<rparr>)\<rparr>;
              s2 = s1\<lparr>sockets := (sockets s1)(socketId \<mapsto>
                        e\<lparr>roomCode := Some code, role := Some Admin\<rparr>)\<rparr>
          in sendToSocket (JStr socketId) ''room_created'' [(''roomCode'', JStr code)] s2)"

text \<open>
  \<open>(payload?.roomCode || "").trim().toUpperCase()\<close>: a falsy or absent \<open>roomCode\<close> gives
  the empty string; a truthy value that is not a string has no \<open>trim\<close> method, and the
  call raises a \<open>TypeError\<close>.
\<close>

definition requestedCode :: "builtins \<Rightarrow> payload \<Rightarrow> error + string" where
  "requestedCode L pl =
     (if \<not> truthy (map_of pl ''roomCode'') then Inr (toUpperCase L (trim L []))
      else (case map_of pl ''roomCode'' of
              Some (JStr c) \<Rightarrow> Inr (toUpperCase L (trim L c))
            | _ \<Rightarrow> Inl TypeError))"

definition handleJoinRoom ::
  "builtins \<Rightarrow> string \<Rightarrow> payload \<Rightarrow> state \<Rightarrow> error + state" where
  "handleJoinRoom L socketId pl s =
     (case sockets s socketId of
        None \<Rightarrow> Inr s
      | Some e \<Rightarrow>
          (case requestedCode L pl of
             Inl err \<Rightarrow> Inl err
           | Inr code \<Rightarrow>
               (case (if code = [] then None else rooms s code) of
                  None \<Rightarrow>
                    Inr (sendToSocket (JStr socketId) ''room_error''
                           [(''message'', JStr ''Room does not exist'')] s)
                | Some r \<Rightarrow>
                    let s1 = s\<lparr>rooms := (rooms s)(code \<mapsto>
                                  r\<lparr>participants := set_add socketId (participants r)\<rparr>)\<rparr>;
                        s2 = s1\<lparr>sockets := (sockets s1)(socketId \<mapsto>
                                  e\<lparr>roomCode := Some code, role := Some Viewer\<rparr>)\<rparr>;
                        s3 = sendToSocket (JStr socketId) ''room_joined''
                               [(''roomCode'', JStr code)] s2
                    in Inr (sendToSocket (JStr (adminId r)) ''viewer_joined''
                              [(''viewerId'', JStr socketId)] s3))))"

text \<open>\<open>rooms.get(entry.roomCode)\<close>: \<open>null\<close> is the key of no room.\<close>

definition rooms_get :: "state \<Rightarrow> string option \<Rightarrow> room option" where
  "rooms_get s c = (case c of None \<Rightarrow> None | Some code \<Rightarrow> rooms s code)"

definition handleOffer :: "string \<Rightarrow> payload \<Rightarrow> state \<Rightarrow> state" where
  "handleOffer socketId pl s =
     (case sockets s socketId of
        None \<Rightarrow> s
      | Some e \<Rightarrow>
          if role e \<noteq> Some Admin then s
          else (case (map_of pl ''viewerId'', map_of pl ''offer'') of
                  (Some viewerId, Some offer) \<Rightarrow>
                    if \<not> truthy_val viewerId \<or> \<not> truthy_val offer then s
                    else (case rooms_get s (roomCode e) of
                            None \<Rightarrow> s
                          | Some r \<Rightarrow>
                              if \<not> set_has (participants r) viewerId then s
                              else sendToSocket viewerId ''receive_offer''
                                     [(''offer'', offer), (''adminId'', JStr socketId)] s)
                | _ \<Rightarrow> s))"

definition handleAnswer :: "string \<Rightarrow> payload \<Rightarrow> state \<Rightarrow> state" where
  "handleAnswer socketId pl s =
     (case (map_of pl ''adminId'', map_of pl ''answer'') of
        (Some target, Some answer) \<Rightarrow>
          if \<not> truthy_val target \<or> \<not> truthy_val answer then s
          else sendToSocket target ''receive_answer''
                 [(''viewerId'', JStr socketId), (''answer'', answer)] s
      | _ \<Rightarrow> s)"

definition handleIceCandidate :: "string \<Rightarrow> payload \<Rightarrow> state \<Rightarrow> state" where
  "handleIceCandidate socketId pl s =
     (case (map_of pl ''target'', map_of pl ''candidate'') of
        (Some target, Some candidate) \<Rightarrow>
          if \<not> truthy_val target \<or> \<not> truthy_val candidate then s
          else sendToSocket target ''ice_candidate''
                 [(''candidate'', candidate), (''from'', JStr socketId)] s
      | _ \<Rightarrow> s)"

text \<open>
  \<open>const { type, ...rest } = parsed; switch (type) ...\<close>. Destructuring \<open>null\<close> raises a
  \<open>TypeError\<close>; a number, a boolean, a string or an array has no property \<open>type\<close>, and
  the switch takes its default branch. \<open>rest\<close> is the object without its \<open>type\<close>.
\<close>

definition rest_of :: "payload \<Rightarrow> payload" where
  "rest_of ps = filter (\<lambda>kv. fst kv \<noteq> ''type'') ps"

fun dispatch ::
  "builtins \<Rightarrow> string \<Rightarrow> string \<Rightarrow> json \<Rightarrow> state \<Rightarrow> error + state" where
  "dispatch L u socketId JNull s = Inl TypeError"
| "dispatch L u socketId (JObj ps) s =
     (let ty = map_of ps ''type''; rest = rest_of ps in
      if ty = Some (JStr ''create_room'') then Inr (handleCreateRoom L socketId u s)
      else if ty = Some (JStr ''join_room'') then handleJoinRoom L socketId rest s
      else if ty = Some (JStr ''send_offer'') then Inr (handleOffer socketId rest s)
      else if ty = Some (JStr ''send_answer'') then Inr (handleAnswer socketId rest s)
      else if ty = Some (JStr ''ice_candidate'') then Inr (handleIceCandidate socketId rest s)
      else Inr s)"
| "dispatch L u socketId v s = Inr s"

text \<open>
  \<open>handleMessage(socketId, data)\<close>. \<open>JSON.parse\<close> is the parameter \<open>parse\<close>: \<open>None\<close> where
  it raises a \<open>SyntaxError\<close>, which the \<open>try\<close> catches. \<open>u\<close> is the string the next call
  of \<open>uuid()\<close> returns.
\<close>

definition handleMessage ::
  "builtins \<Rightarrow> (string \<Rightarrow> json option) \<Rightarrow> string \<Rightarrow> string \<Rightarrow> string \<Rightarrow> state
     \<Rightarrow> error + state" where
  "handleMessage L parse u socketId data s =
     (case parse data of
        None \<Rightarrow> Inr s
      | Some parsed \<Rightarrow> dispatch L u socketId parsed s)"

text \<open>
  The \<open>connection\<close> listener: the new id \<open>socketId\<close> is registered with an open channel,
  no room and no role, and \<open>socket_id\<close> is written to the channel.
\<close>

definition connection :: "string \<Rightarrow> state \<Rightarrow> state" where
  "connection socketId s =
     safeSend socketId OPEN (''socket_id'', [(''socketId'', JStr socketId)])
       (s\<lparr>sockets := (sockets s)(socketId \<mapsto> \<lparr>ws = OPEN, roomCode = None, role = None\<rparr>)\<rparr>)"

subsection \<open>Events\<close>

text \<open>
  The events the process handles, one at a time. \<open>Transport\<close> is the channel of a
  connection changing its \<open>readyState\<close> before its \<open>close\<close> listener runs.
\<close>

datatype event =
    Connect string
  | CreateRoom string string
  | JoinRoom string payload
  | SendOffer string payload
  | SendAnswer string payload
  | IceCandidate string payload
  | Disconnect string
  | Transport string readyState

fun step :: "builtins \<Rightarrow> event \<Rightarrow> state \<Rightarrow> error + state" where
  "step L (Connect i) s = Inr (connection i s)"
| "step L (CreateRoom i u) s = Inr (handleCreateRoom L i u s)"
| "step L (JoinRoom i pl) s = handleJoinRoom L i pl s"
| "step L (SendOffer i pl) s = Inr (handleOffer i pl s)"
| "step L (SendAnswer i pl) s = Inr (handleAnswer i pl s)"
| "step L (IceCandidate i pl) s = Inr (handleIceCandidate i pl s)"
| "step L (Disconnect i) s = Inr (cleanupSocket i s)"
| "step L (Transport i rs) s =
     Inr (case sockets s i of
            None \<Rightarrow> s
          | Some e \<Rightarrow> s\<lparr>sockets := (sockets s)(i \<mapsto> e\<lparr>ws := rs\<rparr>)\<rparr>)"

text \<open>A sequence of events; an uncaught exception ends the process.\<close>

fun run :: "builtins \<Rightarrow> event list \<Rightarrow> state \<Rightarrow> error + state" where
  "run L [] s = Inr s"
| "run L (ev # evs) s =
     (case step L ev s of Inl err \<Rightarrow> Inl err | Inr s' \<Rightarrow> run L evs s')"

text \<open>The state a sequence of events leaves, started from the empty registries.\<close>

definition state_after :: "builtins \<Rightarrow> event list \<Rightarrow> state" where
  "state_after L evs = (case run L evs init of Inr s \<Rightarrow> s | Inl err \<Rightarrow> init)"

subsection \<open>The room invariant\<close>






subsection \<open>Example runs\<close>

text \<open>
  The examples run on ASCII strings. For them the two built-ins are instantiated with
  functions that do on ASCII strings what the built-ins do: \<open>ascii_trim\<close> removes tab, line
  feed, vertical tab, form feed, carriage return and space at both ends, and
  \<open>ascii_toUpperCase\<close> maps \<open>a\<close>..\<open>z\<close> to \<open>A\<close>..\<open>Z\<close>. No theorem about the handlers depends on
  this instance.
\<close>

definition is_space :: "char \<Rightarrow> bool" where
  "is_space c = (c \<in> set [CHR 0x09, CHR 0x0A, CHR 0x0B, CHR 0x0C, CHR 0x0D, CHR '' ''])"

definition ascii_trim :: "string \<Rightarrow> string" where
  "ascii_trim s = rev (dropWhile is_space (rev (dropWhile is_space s)))"

definition ascii_toUpperCase :: "string \<Rightarrow> string" where
  "ascii_toUpperCase s = map upper_char s"

definition ascii_builtins :: builtins where
  "ascii_builtins = \<lparr>trim = ascii_trim, toUpperCase = ascii_toUpperCase\<rparr>"

text \<open>Two strings of the format the generator returns, and the states of a few runs.\<close>

definition uuid1 :: string where
  "uuid1 = ''9b1deb4d-3b7d-4bad-9bdd-2b0d7b3dcb6d''"

definition uuid2 :: string where
  "uuid2 = ''1c5e7a90-0f3b-4c2d-8e6a-7b9d2f4c6e81''"

text \<open>Two connections, neither in a room.\<close>

definition two_peers :: state where
  "two_peers = state_after ascii_builtins [Connect ''a'', Connect ''v'']"

text \<open>\<open>a\<close> has created a room and \<open>b\<close> has joined it, typing the code in lower case.\<close>

definition room_ab_events :: "event list" where
  "room_ab_events =
     [Connect ''a'', CreateRoom ''a'' uuid1, Connect ''b'',
      JoinRoom ''b'' [(''roomCode'', JStr '' 9b1deb4d '')]]"

definition room_ab :: state where
  "room_ab = state_after ascii_builtins room_ab_events"

text \<open>A third connection \<open>c\<close> has connected, and is in no room yet.\<close>

definition room_ab_c :: state where
  "room_ab_c = state_after ascii_builtins
     [Connect ''a'', CreateRoom ''a'' uuid1, Connect ''b'',
      JoinRoom ''b'' [(''roomCode'', JStr '' 9b1deb4d '')], Connect ''c'']"

text \<open>
  \<open>a\<close> has created a room, \<open>b\<close> has joined it, and then \<open>a\<close> has joined its own room;
  the channel of \<open>a\<close> has just closed.
\<close>

definition own_viewer :: state where
  "own_viewer = state_after ascii_builtins
     [Connect ''a'', CreateRoom ''a'' uuid1, Connect ''b'',
      JoinRoom ''b'' [(''roomCode'', JStr ''9B1DEB4D'')],
      JoinRoom ''a'' [(''roomCode'', JStr ''9B1DEB4D'')], Transport ''a'' CLOSED]"

text \<open>\<open>a\<close> has created a room, \<open>b\<close> has joined it, and then \<open>a\<close> has created a second room.\<close>

definition second_room :: state where
  "second_room = state_after ascii_builtins
     [Connect ''a'', CreateRoom ''a'' uuid1, Connect ''b'',
      JoinRoom ''b'' [(''roomCode'', JStr ''9B1DEB4D'')], CreateRoom ''a'' uuid2]"


text \<open>
  Two message texts, \<open>null\<close> and \<open>{"type":"join_room","roomCode":1}\<close>, and what
  \<open>JSON.parse\<close> returns on them (the stand-in \<open>parse_two\<close> knows no other text).
\<close>

definition dquote :: char where
  "dquote = CHR 0x22"

definition join_number_text :: string where
  "join_number_text =
     ''{'' @ [dquote] @ ''type'' @ [dquote] @ '':'' @ [dquote] @ ''join_room'' @ [dquote] @
     '','' @ [dquote] @ ''roomCode'' @ [dquote] @ '':1}''"

definition parse_two :: "string \<Rightarrow> json option" where
  "parse_two d =
     (if d = ''null'' then Some JNull
      else if d = join_number_text
        then Some (JObj [(''type'', JStr ''join_room''), (''roomCode'', JNum 1)])
      else None)"

section \<open>Basic facts\<close>

lemma upper_table:
  "upper_char c =
     (if c = CHR ''a'' then CHR ''A'' else if c = CHR ''b'' then CHR ''B''
      else if c = CHR ''c'' then CHR ''C'' else if c = CHR ''d'' then CHR ''D''
      else if c = CHR ''e'' then CHR ''E'' else if c = CHR ''f'' then CHR ''F''
      else if c = CHR ''g'' then CHR ''G'' else if c = CHR ''h'' then CHR ''H''
      else if c = CHR ''i'' then CHR ''I'' else if c = CHR ''j'' then CHR ''J''
      else if c = CHR ''k'' then CHR ''K'' else if c = CHR ''l'' then CHR ''L''
      else if c = CHR ''m'' then CHR ''M'' else if c = CHR ''n'' then CHR ''N''
      else if c = CHR ''o'' then CHR ''O'' else if c = CHR ''p'' then CHR ''P''
      else if c = CHR ''q'' then CHR ''Q'' else if c = CHR ''r'' then CHR ''R''
      else if c = CHR ''s'' then CHR ''S'' else if c = CHR ''t'' then CHR ''T''
      else if c = CHR ''u'' then CHR ''U'' else if c = CHR ''v'' then CHR ''V''
      else if c = CHR ''w'' then CHR ''W'' else if c = CHR ''x'' then CHR ''X''
      else if c = CHR ''y'' then CHR ''Y'' else if c = CHR ''z'' then CHR ''Z'' else c)"
  unfolding upper_char_def by simp

lemmas ascii_defs = ascii_builtins_def ascii_trim_def ascii_toUpperCase_def is_space_def

lemma uuid1_code: "shortRoomCode ascii_builtins uuid1 = ''9B1DEB4D''"
  by (simp add: shortRoomCode_def uuid1_def ascii_defs upper_table)

lemma uuid2_code: "shortRoomCode ascii_builtins uuid2 = ''1C5E7A90''"
  by (simp add: shortRoomCode_def uuid2_def ascii_defs upper_table)

lemma requested_lower: "requestedCode ascii_builtins [(''roomCode'', JStr '' 9b1deb4d '')] = Inr ''9B1DEB4D''"
  by (simp add: requestedCode_def ascii_defs upper_table)

lemma requested_upper: "requestedCode ascii_builtins [(''roomCode'', JStr ''9B1DEB4D'')] = Inr ''9B1DEB4D''"
  by (simp add: requestedCode_def ascii_defs upper_table)

lemma normalise_unknown: "toUpperCase ascii_builtins (trim ascii_builtins ''zzzz'') = ''ZZZZ''"
  by (simp add: ascii_defs upper_table)

lemma normalise_empty: "toUpperCase ascii_builtins (trim ascii_builtins []) = []"
  by (simp add: ascii_defs)

lemma outbox_safeSend [simp]:
  "outbox (safeSend k rs m s) = outbox s @ (if rs = OPEN then [(k, m)] else [])"
  by (simp add: safeSend_def)

lemma sockets_safeSend [simp]: "sockets (safeSend k rs m s) = sockets s"
  by (simp add: safeSend_def)

lemma rooms_safeSend [simp]: "rooms (safeSend k rs m s) = rooms s"
  by (simp add: safeSend_def)

lemma sockets_sendToSocket [simp]: "sockets (sendToSocket t ty pl s) = sockets s"
  by (cases t) (simp_all split: option.splits)

lemma rooms_sendToSocket [simp]: "rooms (sendToSocket t ty pl s) = rooms s"
  by (cases t) (simp_all split: option.splits)

lemma outbox_sendToSocket:
  "outbox (sendToSocket t ty pl s) = outbox s @ delivered s t (ty, pl)"
  by (cases t) (simp_all split: option.splits)

text \<open>What a send writes depends on the channels only, not on rooms or roles.\<close>

lemma delivered_channel:
  "delivered s (JStr k) m = (if map_option ws (sockets s k) = Some OPEN then [(k, m)] else [])"
  by (auto split: option.splits)

lemma delivered_cong:
  assumes "\<And>k. map_option ws (sockets s k) = map_option ws (sockets s' k)"
  shows "delivered s t m = delivered s' t m"
proof (cases t)
  case (JStr k)
  then show ?thesis by (simp only: delivered_channel assms)
qed simp_all

text \<open>
  From here on a send is reasoned about through the three facts above; the equations
  of \<open>sendToSocket\<close> and \<open>delivered\<close> are unfolded only to evaluate concrete states.
\<close>

declare sendToSocket.simps [simp del] delivered.simps [simp del]

lemmas handler_defs = state_after_def init_def connection_def safeSend_def
  sendToSocket.simps delivered.simps
  handleCreateRoom_def handleJoinRoom_def handleOffer_def handleAnswer_def
  handleIceCandidate_def cleanupSocket_def closeParticipant_def rooms_get_def
  set_add_def set_delete_def Let_def

lemma two_peers_eq:
  "two_peers =
     \<lparr>sockets = [''a'' \<mapsto> \<lparr>ws = OPEN, roomCode = None, role = None\<rparr>,
                 ''v'' \<mapsto> \<lparr>ws = OPEN, roomCode = None, role = None\<rparr>],
      rooms = Map.empty,
      outbox =
        [(''a'', ''socket_id'', [(''socketId'', JStr ''a'')]),
         (''v'', ''socket_id'', [(''socketId'', JStr ''v'')])]\<rparr>"
  by (simp add: two_peers_def handler_defs)

lemma room_ab_eq:
  "room_ab =
     \<lparr>sockets = [''a'' \<mapsto> \<lparr>ws = OPEN, roomCode = Some ''9B1DEB4D'', role = Some Admin\<rparr>,
                 ''b'' \<mapsto> \<lparr>ws = OPEN, roomCode = Some ''9B1DEB4D'', role = Some Viewer\<rparr>],
      rooms = [''9B1DEB4D'' \<mapsto> \<lparr>adminId = ''a'', participants = [''b'']\<rparr>],
      outbox =
        [(''a'', ''socket_id'', [(''socketId'', JStr ''a'')]),
         (''a'', ''room_created'', [(''roomCode'', JStr ''9B1DEB4D'')]),
         (''b'', ''socket_id'', [(''socketId'', JStr ''b'')]),
         (''b'', ''room_joined'', [(''roomCode'', JStr ''9B1DEB4D'')]),
         (''a'', ''viewer_joined'', [(''viewerId'', JStr ''b'')])]\<rparr>"
  by (simp add: room_ab_def room_ab_events_def handler_defs uuid1_code requested_lower)

lemma room_ab_c_eq:
  "room_ab_c =
     \<lparr>sockets = [''a'' \<mapsto> \<lparr>ws = OPEN, roomCode = Some ''9B1DEB4D'', role = Some Admin\<rparr>,
                 ''b'' \<mapsto> \<lparr>ws = OPEN, roomCode = Some ''9B1DEB4D'', role = Some Viewer\<rparr>,
                 ''c'' \<mapsto> \<lparr>ws = OPEN, roomCode = None, role = None\<rparr>],
      rooms = [''9B1DEB4D'' \<mapsto> \<lparr>adminId = ''a'', participants = [''b'']\<rparr>],
      outbox =
        [(''a'', ''socket_id'', [(''socketId'', JStr ''a'')]),
         (''a'', ''room_created'', [(''roomCode'', JStr ''9B1DEB4D'')]),
         (''b'', ''socket_id'', [(''socketId'', JStr ''b'')]),
         (''b'', ''room_joined'', [(''roomCode'', JStr ''9B1DEB4D'')]),
         (''a'', ''viewer_joined'', [(''viewerId'', JStr ''b'')]),
         (''c'', ''socket_id'', [(''socketId'', JStr ''c'')])]\<rparr>"
  by (simp add: room_ab_c_def handler_defs uuid1_code requested_lower)

lemma normalise_lower: "toUpperCase ascii_builtins (trim ascii_builtins '' 9b1deb4d '') = ''9B1DEB4D''"
  by (simp add: ascii_defs upper_table)

section \<open>The claims\<close>

subsection \<open>Relay of answers and candidates\<close>

text \<open>
  C9. A \<open>send_answer\<close> whose \<open>adminId\<close> or \<open>answer\<close> is absent or falsy, and an
  \<open>ice_candidate\<close> whose \<open>target\<close> or \<open>candidate\<close> is absent or falsy, sends nothing and
  changes no state: the handler returns the state it was given.
\<close>

theorem relay_falsy_dropped:
  "(\<not> truthy (map_of pl ''adminId'') \<or> \<not> truthy (map_of pl ''answer'')
      \<longrightarrow> handleAnswer i pl s = s) \<and>
   (\<not> truthy (map_of pl ''target'') \<or> \<not> truthy (map_of pl ''candidate'')
      \<longrightarrow> handleIceCandidate i pl s = s)"
  by (auto simp: handleAnswer_def handleIceCandidate_def split: option.splits)

theorem relay_falsy_dropped_witness:
  "sockets two_peers ''a'' = Some \<lparr>ws = OPEN, roomCode = None, role = None\<rparr> \<and>
   handleAnswer ''v'' [(''adminId'', JStr ''a''), (''answer'', JStr [])] two_peers = two_peers \<and>
   handleIceCandidate ''v'' [(''target'', JStr ''a'')] two_peers = two_peers"
  using relay_falsy_dropped [of "[(''adminId'', JStr ''a''), (''answer'', JStr [])]" "''v''" two_peers]
    relay_falsy_dropped [of "[(''target'', JStr ''a'')]" "''v''" two_peers]
  by (simp add: two_peers_eq delivered.simps)

text \<open>
  C6, as the code has it. When both fields of a \<open>send_answer\<close> (\<open>adminId\<close>, \<open>answer\<close>) or
  of an \<open>ice_candidate\<close> (\<open>target\<close>, \<open>candidate\<close>) are present and truthy, the handler does
  one \<open>sendToSocket\<close> to the target id as supplied and nothing else, for every sender \<open>i\<close>
  (registered or not, whatever its role) and every state \<open>s\<close> (whatever the rooms hold):
  the registries are unchanged and the outbox grows by what that send writes.
\<close>

theorem relay_unchecked:
  "(truthy (map_of pl ''adminId'') \<and> truthy (map_of pl ''answer'') \<longrightarrow>
      (\<exists>target answer. map_of pl ''adminId'' = Some target \<and> map_of pl ''answer'' = Some answer \<and>
         sockets (handleAnswer i pl s) = sockets s \<and> rooms (handleAnswer i pl s) = rooms s \<and>
         outbox (handleAnswer i pl s) = outbox s @
           delivered s target (''receive_answer'', [(''viewerId'', JStr i), (''answer'', answer)]))) \<and>
   (truthy (map_of pl ''target'') \<and> truthy (map_of pl ''candidate'') \<longrightarrow>
      (\<exists>target candidate. map_of pl ''target'' = Some target \<and>
         map_of pl ''candidate'' = Some candidate \<and>
         sockets (handleIceCandidate i pl s) = sockets s \<and>
         rooms (handleIceCandidate i pl s) = rooms s \<and>
         outbox (handleIceCandidate i pl s) = outbox s @
           delivered s target (''ice_candidate'', [(''candidate'', candidate), (''from'', JStr i)])))"
  by (auto simp: handleAnswer_def handleIceCandidate_def outbox_sendToSocket split: option.splits)

text \<open>The sender \<open>x\<close> is not even registered; \<open>a\<close> and \<open>v\<close> are in no room.\<close>

theorem relay_unchecked_witness:
  "sockets two_peers ''x'' = None \<and>
   outbox (handleAnswer ''x'' [(''adminId'', JStr ''a''), (''answer'', JStr ''sdp'')] two_peers) =
     outbox two_peers @
       [(''a'', ''receive_answer'', [(''viewerId'', JStr ''x''), (''answer'', JStr ''sdp'')])] \<and>
   outbox (handleIceCandidate ''x'' [(''target'', JStr ''v''), (''candidate'', JStr ''c'')] two_peers) =
     outbox two_peers @
       [(''v'', ''ice_candidate'', [(''candidate'', JStr ''c''), (''from'', JStr ''x'')])]"
  using relay_unchecked [of "[(''adminId'', JStr ''a''), (''answer'', JStr ''sdp'')]" "''x''" two_peers]
    relay_unchecked [of "[(''target'', JStr ''v''), (''candidate'', JStr ''c'')]" "''x''" two_peers]
  by (simp add: two_peers_eq delivered.simps)

text \<open>
  C6 as stated fails: with the target \<open>a\<close> supplied, registered and its channel open, a
  \<open>send_answer\<close> whose \<open>answer\<close> is \<open>null\<close> and an \<open>ice_candidate\<close> whose \<open>candidate\<close> is
  \<open>null\<close> write nothing.
\<close>

theorem relay_unchecked_counterexample:
  "sockets two_peers ''a'' = Some \<lparr>ws = OPEN, roomCode = None, role = None\<rparr> \<and>
   sockets two_peers ''v'' = Some \<lparr>ws = OPEN, roomCode = None, role = None\<rparr> \<and>
   outbox (handleAnswer ''v'' [(''adminId'', JStr ''a''), (''answer'', JNull)] two_peers) =
     outbox two_peers \<and>
   outbox (handleIceCandidate ''v'' [(''target'', JStr ''a''), (''candidate'', JNull)] two_peers) =
     outbox two_peers"
  by (simp add: two_peers_eq handler_defs)

subsection \<open>Offers\<close>

text \<open>
  C2, as the code has it. A \<open>send_offer\<close> returns the state it was given, so it sends
  nothing and changes nothing, when the sender is not registered or its role is not
  admin, or its room does not exist, or the supplied \<open>viewerId\<close> is not a participant of
  that room, or \<open>viewerId\<close> or \<open>offer\<close> is absent or falsy. Otherwise it does one
  \<open>sendToSocket\<close> of \<open>receive_offer{offer, adminId: sender}\<close> to \<open>viewerId\<close> and nothing else.
\<close>

theorem offer_gated:
  "(sockets s i = None \<or>
    (\<exists>e. sockets s i = Some e \<and>
       (role e \<noteq> Some Admin \<or> rooms_get s (roomCode e) = None \<or>
        (\<exists>r. rooms_get s (roomCode e) = Some r \<and>
           (\<forall>v. map_of pl ''viewerId'' = Some v \<longrightarrow> \<not> set_has (participants r) v)))) \<or>
    \<not> truthy (map_of pl ''viewerId'') \<or> \<not> truthy (map_of pl ''offer'')
      \<longrightarrow> handleOffer i pl s = s) \<and>
   (sockets s i = Some e \<and> role e = Some Admin \<and> rooms_get s (roomCode e) = Some r \<and>
    map_of pl ''viewerId'' = Some (JStr v) \<and> v \<in> set (participants r) \<and> v \<noteq> [] \<and>
    map_of pl ''offer'' = Some off \<and> truthy_val off
      \<longrightarrow> sockets (handleOffer i pl s) = sockets s \<and> rooms (handleOffer i pl s) = rooms s \<and>
          outbox (handleOffer i pl s) = outbox s @
            delivered s (JStr v) (''receive_offer'', [(''offer'', off), (''adminId'', JStr i)]))"
  by (auto simp: handleOffer_def outbox_sendToSocket split: option.splits)

text \<open>
  In \<open>room_ab\<close>: the viewer \<open>b\<close> sends an offer (dropped), the admin \<open>a\<close> sends one to \<open>c\<close>,
  who is not in the room (dropped), and one to \<open>b\<close> (delivered).
\<close>

theorem offer_gated_witness:
  "handleOffer ''b'' [(''viewerId'', JStr ''b''), (''offer'', JStr ''sdp'')] room_ab = room_ab \<and>
   handleOffer ''a'' [(''viewerId'', JStr ''c''), (''offer'', JStr ''sdp'')] room_ab = room_ab \<and>
   outbox (handleOffer ''a'' [(''viewerId'', JStr ''b''), (''offer'', JStr ''sdp'')] room_ab) =
     outbox room_ab @
       [(''b'', ''receive_offer'', [(''offer'', JStr ''sdp''), (''adminId'', JStr ''a'')])]"
  using offer_gated [of room_ab "''b''" "[(''viewerId'', JStr ''b''), (''offer'', JStr ''sdp'')]"]
    offer_gated [of room_ab "''a''" "[(''viewerId'', JStr ''c''), (''offer'', JStr ''sdp'')]"]
    offer_gated [of room_ab "''a''" "[(''viewerId'', JStr ''b''), (''offer'', JStr ''sdp'')]"
      "\<lparr>ws = OPEN, roomCode = Some ''9B1DEB4D'', role = Some Admin\<rparr>"
      "\<lparr>adminId = ''a'', participants = [''b'']\<rparr>" "''b''" "JStr ''sdp''"]
  by (simp add: room_ab_eq rooms_get_def delivered.simps)

text \<open>
  C2 as stated fails: \<open>a\<close> is the admin of its room, the room exists and \<open>b\<close> is a
  participant of it, registered and its channel open; a \<open>send_offer\<close> to \<open>b\<close> whose
  \<open>offer\<close> is \<open>null\<close>, or absent, writes nothing.
\<close>

theorem offer_gated_counterexample:
  "sockets room_ab ''a'' = Some \<lparr>ws = OPEN, roomCode = Some ''9B1DEB4D'', role = Some Admin\<rparr> \<and>
   rooms room_ab ''9B1DEB4D'' = Some \<lparr>adminId = ''a'', participants = [''b'']\<rparr> \<and>
   sockets room_ab ''b'' = Some \<lparr>ws = OPEN, roomCode = Some ''9B1DEB4D'', role = Some Viewer\<rparr> \<and>
   outbox (handleOffer ''a'' [(''viewerId'', JStr ''b''), (''offer'', JNull)] room_ab) =
     outbox room_ab \<and>
   outbox (handleOffer ''a'' [(''viewerId'', JStr ''b'')] room_ab) = outbox room_ab"
  by (simp add: room_ab_eq handler_defs)

subsection \<open>Joining a room\<close>

text \<open>
  The code a request asks for: the built-ins applied to the \<open>roomCode\<close> when it is a
  string, and to the empty string when it is absent or falsy.
\<close>

lemma requestedCode_string:
  "map_of pl ''roomCode'' = Some (JStr c) \<Longrightarrow>
   requestedCode L pl = Inr (toUpperCase L (trim L c))"
  by (cases "c = []") (simp_all add: requestedCode_def)

lemma requestedCode_falsy:
  "\<not> truthy (map_of pl ''roomCode'') \<Longrightarrow>
   requestedCode L pl = Inr (toUpperCase L (trim L []))"
  by (simp add: requestedCode_def)

text \<open>
  C4. A \<open>join_room\<close> of a registered connection whose \<open>roomCode\<close> (a string \<open>c\<close>, or the
  empty string when the field is absent or falsy), trimmed and upper-cased, is empty or
  names no room does one \<open>sendToSocket\<close> of \<open>room_error\<close> to the requester and changes
  neither registry (so the requester keeps its role and room). The send writes exactly
  one message to the requester, whose channel is open when its request arrives.
\<close>

theorem join_unknown_room:
  "sockets s i = Some e \<and>
   (map_of pl ''roomCode'' = Some (JStr c) \<or> \<not> truthy (map_of pl ''roomCode'') \<and> c = []) \<and>
   (toUpperCase L (trim L c) = [] \<or> rooms s (toUpperCase L (trim L c)) = None)
     \<longrightarrow> (\<exists>s'. handleJoinRoom L i pl s = Inr s' \<and> sockets s' = sockets s \<and> rooms s' = rooms s \<and>
            outbox s' = outbox s @
              delivered s (JStr i) (''room_error'', [(''message'', JStr ''Room does not exist'')]) \<and>
            (ws e = OPEN \<longrightarrow>
               outbox s' = outbox s @
                 [(i, ''room_error'', [(''message'', JStr ''Room does not exist'')])]))"
proof (intro impI, elim conjE)
  let ?code = "toUpperCase L (trim L c)"
  assume reg: "sockets s i = Some e"
    and pl: "map_of pl ''roomCode'' = Some (JStr c) \<or> \<not> truthy (map_of pl ''roomCode'') \<and> c = []"
    and none: "?code = [] \<or> rooms s ?code = None"
  from pl have req: "requestedCode L pl = Inr ?code"
    by (auto simp: requestedCode_string requestedCode_falsy)
  from none have "(if ?code = [] then None else rooms s ?code) = None"
    by auto
  with reg req have run: "handleJoinRoom L i pl s =
      Inr (sendToSocket (JStr i) ''room_error'' [(''message'', JStr ''Room does not exist'')] s)"
    by (simp add: handleJoinRoom_def)
  show "\<exists>s'. handleJoinRoom L i pl s = Inr s' \<and> sockets s' = sockets s \<and> rooms s' = rooms s \<and>
            outbox s' = outbox s @
              delivered s (JStr i) (''room_error'', [(''message'', JStr ''Room does not exist'')]) \<and>
            (ws e = OPEN \<longrightarrow>
               outbox s' = outbox s @
                 [(i, ''room_error'', [(''message'', JStr ''Room does not exist'')])])"
    unfolding run by (simp add: outbox_sendToSocket delivered.simps reg)
qed

text \<open>
  In \<open>room_ab\<close> the viewer \<open>b\<close> asks for \<open>zzzz\<close>, and \<open>a\<close> sends a \<open>join_room\<close> with no
  \<open>roomCode\<close>: each is sent \<open>room_error\<close>, and no registry changes.
\<close>

theorem join_unknown_room_witness:
  "(\<exists>s'. handleJoinRoom ascii_builtins ''b'' [(''roomCode'', JStr ''zzzz'')] room_ab = Inr s' \<and>
     sockets s' = sockets room_ab \<and> rooms s' = rooms room_ab \<and>
     outbox s' = outbox room_ab @
       [(''b'', ''room_error'', [(''message'', JStr ''Room does not exist'')])]) \<and>
   (\<exists>s'. handleJoinRoom ascii_builtins ''a'' [] room_ab = Inr s' \<and>
     sockets s' = sockets room_ab \<and> rooms s' = rooms room_ab \<and>
     outbox s' = outbox room_ab @
       [(''a'', ''room_error'', [(''message'', JStr ''Room does not exist'')])])"
  using join_unknown_room [where L = ascii_builtins and s = room_ab and i = "''b''"
     and e = "\<lparr>ws = OPEN, roomCode = Some ''9B1DEB4D'', role = Some Viewer\<rparr>"
     and pl = "[(''roomCode'', JStr ''zzzz'')]" and c = "''zzzz''"]
    join_unknown_room [where L = ascii_builtins and s = room_ab and i = "''a''"
     and e = "\<lparr>ws = OPEN, roomCode = Some ''9B1DEB4D'', role = Some Admin\<rparr>"
     and pl = "[]" and c = "[]"]
  by (simp add: room_ab_eq normalise_unknown normalise_empty delivered.simps)

text \<open>
  C5. A \<open>join_room\<close> of a registered connection whose \<open>roomCode\<close> is a string \<open>c\<close> that,
  trimmed and upper-cased, names an existing room \<open>r\<close>: the requester is added to the
  participants of the room (whose admin stays), its entry gets the role viewer and the
  normalised code, no other room and no other entry changes, \<open>room_joined\<close> with the
  normalised code is sent to the requester and then \<open>viewer_joined\<close> with the requester's
  id to the admin of the room (one \<open>sendToSocket\<close> each): with both channels open, these
  two messages are what is written.
\<close>

theorem join_existing_room:
  "sockets s i = Some e \<and> map_of pl ''roomCode'' = Some (JStr c) \<and>
   toUpperCase L (trim L c) \<noteq> [] \<and> rooms s (toUpperCase L (trim L c)) = Some r
     \<longrightarrow> (\<exists>s'. handleJoinRoom L i pl s = Inr s' \<and>
            rooms s' = (rooms s)(toUpperCase L (trim L c) \<mapsto>
              r\<lparr>participants := set_add i (participants r)\<rparr>) \<and>
            set (set_add i (participants r)) = insert i (set (participants r)) \<and>
            sockets s' = (sockets s)(i \<mapsto>
              e\<lparr>roomCode := Some (toUpperCase L (trim L c)), role := Some Viewer\<rparr>) \<and>
            outbox s' = outbox s @
              delivered s (JStr i) (''room_joined'', [(''roomCode'', JStr (toUpperCase L (trim L c)))]) @
              delivered s (JStr (adminId r)) (''viewer_joined'', [(''viewerId'', JStr i)]) \<and>
            (ws e = OPEN \<and> map_option ws (sockets s (adminId r)) = Some OPEN \<longrightarrow>
               outbox s' = outbox s @
                 [(i, ''room_joined'', [(''roomCode'', JStr (toUpperCase L (trim L c)))]),
                  (adminId r, ''viewer_joined'', [(''viewerId'', JStr i)])]))"
proof (intro impI, elim conjE)
  let ?code = "toUpperCase L (trim L c)"
  let ?r' = "r\<lparr>participants := set_add i (participants r)\<rparr>"
  let ?s2 = "s\<lparr>rooms := (rooms s)(?code \<mapsto> ?r'),
               sockets := (sockets s)(i \<mapsto> e\<lparr>roomCode := Some ?code, role := Some Viewer\<rparr>)\<rparr>"
  assume reg: "sockets s i = Some e" and str: "map_of pl ''roomCode'' = Some (JStr c)"
    and ne: "?code \<noteq> []" and ex: "rooms s ?code = Some r"
  from str have req: "requestedCode L pl = Inr ?code"
    by (cases "c = []") (simp_all add: requestedCode_def)
  have ch: "\<And>t m. delivered ?s2 t m = delivered s t m"
    by (rule delivered_cong) (simp add: reg)
  have ch': "\<And>t m ty p. delivered (sendToSocket (JStr i) ty p ?s2) t m = delivered s t m"
    by (rule delivered_cong) (simp add: reg)
  have run: "handleJoinRoom L i pl s =
      Inr (sendToSocket (JStr (adminId r)) ''viewer_joined'' [(''viewerId'', JStr i)]
            (sendToSocket (JStr i) ''room_joined'' [(''roomCode'', JStr ?code)] ?s2))"
    using reg req ne ex by (simp add: handleJoinRoom_def Let_def)
  show "\<exists>s'. handleJoinRoom L i pl s = Inr s' \<and>
            rooms s' = (rooms s)(?code \<mapsto> ?r') \<and>
            set (set_add i (participants r)) = insert i (set (participants r)) \<and>
            sockets s' = (sockets s)(i \<mapsto> e\<lparr>roomCode := Some ?code, role := Some Viewer\<rparr>) \<and>
            outbox s' = outbox s @
              delivered s (JStr i) (''room_joined'', [(''roomCode'', JStr ?code)]) @
              delivered s (JStr (adminId r)) (''viewer_joined'', [(''viewerId'', JStr i)]) \<and>
            (ws e = OPEN \<and> map_option ws (sockets s (adminId r)) = Some OPEN \<longrightarrow>
               outbox s' = outbox s @
                 [(i, ''room_joined'', [(''roomCode'', JStr ?code)]),
                  (adminId r, ''viewer_joined'', [(''viewerId'', JStr i)])])"
    unfolding run
  proof (intro exI [of _ "sendToSocket (JStr (adminId r)) ''viewer_joined'' [(''viewerId'', JStr i)]
            (sendToSocket (JStr i) ''room_joined'' [(''roomCode'', JStr ?code)] ?s2)"]
          conjI)
    show "set (set_add i (participants r)) = insert i (set (participants r))"
      by (auto simp: set_add_def)
  qed (simp_all add: outbox_sendToSocket ch ch' delivered_channel reg)
qed

text \<open>
  A third connection \<open>c\<close> joins the room of \<open>a\<close> and \<open>b\<close>, typing the code in lower case
  with spaces around it: it becomes a viewer of \<open>9B1DEB4D\<close>, is told so with the
  upper-case code, and \<open>a\<close> is told of the viewer \<open>c\<close>.
\<close>

theorem join_existing_room_witness:
  "\<exists>s'. handleJoinRoom ascii_builtins ''c'' [(''roomCode'', JStr '' 9b1deb4d '')] room_ab_c = Inr s' \<and>
     rooms s' ''9B1DEB4D'' = Some \<lparr>adminId = ''a'', participants = [''b'', ''c'']\<rparr> \<and>
     sockets s' ''c'' = Some \<lparr>ws = OPEN, roomCode = Some ''9B1DEB4D'', role = Some Viewer\<rparr> \<and>
     outbox s' = outbox room_ab_c @
       [(''c'', ''room_joined'', [(''roomCode'', JStr ''9B1DEB4D'')]),
        (''a'', ''viewer_joined'', [(''viewerId'', JStr ''c'')])]"
  using join_existing_room [where L = ascii_builtins and s = room_ab_c and i = "''c''"
      and e = "\<lparr>ws = OPEN, roomCode = None, role = None\<rparr>"
      and pl = "[(''roomCode'', JStr '' 9b1deb4d '')]" and c = "'' 9b1deb4d ''"
      and r = "\<lparr>adminId = ''a'', participants = [''b'']\<rparr>"]
  apply (simp add: room_ab_c_eq normalise_lower delivered.simps set_add_def)
  apply (elim exE conjE)
  subgoal for s'
    apply (rule exI [of _ s'])
    apply (simp (no_asm_simp))
    done
  done

subsection \<open>Room codes\<close>

lemma split_dash_nonempty: "split_dash u \<noteq> []"
  by (induction u) (auto split: list.splits)

text \<open>Element 0 of \<open>u.split("-")\<close> is \<open>u\<close> up to its first dash.\<close>

lemma hd_split_dash: "hd (split_dash u) = takeWhile (\<lambda>c. c \<noteq> CHR ''-'') u"
  using split_dash_nonempty by (induction u) (auto split: list.splits)

lemma upper_hex: "is_hex c \<Longrightarrow> upper_char c \<in> set ''0123456789ABCDEF''"
  unfolding is_hex_def
  apply (simp only: set_simps insert_iff empty_iff)
  apply (elim disjE FalseE)
  apply (simp_all only: upper_table)
  apply simp_all
  done

lemma hex_ascii: "is_hex c \<Longrightarrow> is_ascii c"
  unfolding is_hex_def
  apply (simp only: set_simps insert_iff empty_iff)
  apply (elim disjE FalseE)
  apply (simp_all add: is_ascii_def)
  done

text \<open>The first group of a generated string: its first 8 characters, all hexadecimal.\<close>

lemma uuid_first_group:
  assumes "is_uuid u"
  shows "hd (split_dash u) = take 8 u" and "length (take 8 u) = 8"
    and "\<forall>c \<in> set (take 8 u). is_hex c"
proof -
  from assms have len: "map length (split_dash u) = [8, 4, 4, 4, 12]"
    and hex: "list_all (list_all is_hex) (split_dash u)"
    by (simp_all add: is_uuid_def)
  from len obtain g gs where sp: "split_dash u = g # gs"
    by (cases "split_dash u") simp_all
  from sp len have g8: "length (hd (split_dash u)) = 8"
    by simp
  have "hd (split_dash u) = take (length (hd (split_dash u))) u"
    unfolding hd_split_dash by (rule takeWhile_eq_take)
  with g8 show first: "hd (split_dash u) = take 8 u"
    by simp
  from g8 show "length (take 8 u) = 8"
    unfolding first .
  from sp hex have "\<forall>c \<in> set (hd (split_dash u)). is_hex c"
    by (simp add: list_all_iff)
  then show "\<forall>c \<in> set (take 8 u). is_hex c"
    unfolding first .
qed

lemma uuid1_ok: "is_uuid uuid1"
  by (simp add: is_uuid_def uuid1_def is_hex_def)

lemma ascii_builtins_upper: "ascii_upper ascii_builtins"
  by (simp add: ascii_upper_def ascii_builtins_def ascii_toUpperCase_def)

text \<open>
  C10. For every string \<open>u\<close> of the generator's format, the room code \<open>shortRoomCode L u\<close>
  is the first dash-separated group of \<open>u\<close>, that is its first 8 characters, upper-cased:
  it has exactly 8 characters, each an upper-case hexadecimal digit. And \<open>create_room\<close> of a
  registered connection registers the room under that code, with the requester as admin
  and no participant, makes the requester the admin of that code, and sends the code in
  \<open>room_created\<close>. Of \<open>toUpperCase\<close> the theorem uses what it does on ASCII strings.
\<close>

theorem room_code_format:
  "is_uuid u \<and> ascii_upper L \<longrightarrow>
     hd (split_dash u) = take 8 u \<and>
     shortRoomCode L u = map upper_char (take 8 u) \<and>
     length (shortRoomCode L u) = 8 \<and>
     (\<forall>c \<in> set (shortRoomCode L u). c \<in> set ''0123456789ABCDEF'') \<and>
     (sockets s i = Some e \<longrightarrow>
        rooms (handleCreateRoom L i u s) =
          (rooms s)(map upper_char (take 8 u) \<mapsto> \<lparr>adminId = i, participants = []\<rparr>) \<and>
        sockets (handleCreateRoom L i u s) =
          (sockets s)(i \<mapsto> e\<lparr>roomCode := Some (map upper_char (take 8 u)), role := Some Admin\<rparr>) \<and>
        outbox (handleCreateRoom L i u s) = outbox s @
          delivered s (JStr i)
            (''room_created'', [(''roomCode'', JStr (map upper_char (take 8 u)))]))"
proof (intro impI, elim conjE)
  assume u: "is_uuid u" and L: "ascii_upper L"
  note g = uuid_first_group [OF u]
  from g(3) have "list_all is_ascii (take 8 u)"
    by (auto simp: list_all_iff dest: hex_ascii)
  with L have "toUpperCase L (take 8 u) = map upper_char (take 8 u)"
    by (simp add: ascii_upper_def)
  then have code: "shortRoomCode L u = map upper_char (take 8 u)"
    by (simp add: shortRoomCode_def g(1))
  have len: "length (shortRoomCode L u) = 8"
    unfolding code using g(2) by simp
  have hexs: "\<forall>c \<in> set (shortRoomCode L u). c \<in> set ''0123456789ABCDEF''"
  proof
    fix c assume "c \<in> set (shortRoomCode L u)"
    then obtain d where "d \<in> set (take 8 u)" and c: "c = upper_char d"
      unfolding code by auto
    with g(3) have "is_hex d" by blast
    then show "c \<in> set ''0123456789ABCDEF''"
      unfolding c by (rule upper_hex)
  qed
  have reg: "rooms (handleCreateRoom L i u s) =
          (rooms s)(map upper_char (take 8 u) \<mapsto> \<lparr>adminId = i, participants = []\<rparr>) \<and>
        sockets (handleCreateRoom L i u s) =
          (sockets s)(i \<mapsto> e\<lparr>roomCode := Some (map upper_char (take 8 u)), role := Some Admin\<rparr>) \<and>
        outbox (handleCreateRoom L i u s) = outbox s @
          delivered s (JStr i)
            (''room_created'', [(''roomCode'', JStr (map upper_char (take 8 u)))])"
    if reg: "sockets s i = Some e"
  proof -
    let ?code = "map upper_char (take 8 u)"
    let ?s2 = "s\<lparr>rooms := (rooms s)(?code \<mapsto> \<lparr>adminId = i, participants = []\<rparr>),
                 sockets := (sockets s)(i \<mapsto> e\<lparr>roomCode := Some ?code, role := Some Admin\<rparr>)\<rparr>"
    have run: "handleCreateRoom L i u s =
        sendToSocket (JStr i) ''room_created'' [(''roomCode'', JStr ?code)] ?s2"
      using reg by (simp add: handleCreateRoom_def Let_def code)
    have ch: "\<And>t m. delivered ?s2 t m = delivered s t m"
      by (rule delivered_cong) (simp add: reg)
    show ?thesis
      by (simp add: run outbox_sendToSocket ch)
  qed
  from g(1) code len hexs reg
  show "hd (split_dash u) = take 8 u \<and>
     shortRoomCode L u = map upper_char (take 8 u) \<and>
     length (shortRoomCode L u) = 8 \<and>
     (\<forall>c \<in> set (shortRoomCode L u). c \<in> set ''0123456789ABCDEF'') \<and>
     (sockets s i = Some e \<longrightarrow>
        rooms (handleCreateRoom L i u s) =
          (rooms s)(map upper_char (take 8 u) \<mapsto> \<lparr>adminId = i, participants = []\<rparr>) \<and>
        sockets (handleCreateRoom L i u s) =
          (sockets s)(i \<mapsto> e\<lparr>roomCode := Some (map upper_char (take 8 u)), role := Some Admin\<rparr>) \<and>
        outbox (handleCreateRoom L i u s) = outbox s @
          delivered s (JStr i)
            (''room_created'', [(''roomCode'', JStr (map upper_char (take 8 u)))]))"
    by blast
qed

text \<open>
  For \<open>9b1deb4d-3b7d-4bad-9bdd-2b0d7b3dcb6d\<close> the code is \<open>9B1DEB4D\<close>, and for
  \<open>1c5e7a90-0f3b-4c2d-8e6a-7b9d2f4c6e81\<close> it is \<open>1C5E7A90\<close>.
\<close>

theorem room_code_format_witness:
  "is_uuid uuid1 \<and> ascii_upper ascii_builtins \<and>
   shortRoomCode ascii_builtins uuid1 = ''9B1DEB4D'' \<and>
   shortRoomCode ascii_builtins uuid2 = ''1C5E7A90'' \<and>
   map upper_char (take 8 uuid1) = ''9B1DEB4D'' \<and>
   rooms (handleCreateRoom ascii_builtins ''a'' uuid1 two_peers) ''9B1DEB4D'' =
     Some \<lparr>adminId = ''a'', participants = []\<rparr> \<and>
   sockets (handleCreateRoom ascii_builtins ''a'' uuid1 two_peers) ''a'' =
     Some \<lparr>ws = OPEN, roomCode = Some ''9B1DEB4D'', role = Some Admin\<rparr> \<and>
   outbox (handleCreateRoom ascii_builtins ''a'' uuid1 two_peers) = outbox two_peers @
     [(''a'', ''room_created'', [(''roomCode'', JStr ''9B1DEB4D'')])]"
proof -
  have take1: "map upper_char (take 8 uuid1) = ''9B1DEB4D''"
    by (simp add: uuid1_def upper_table)
  from room_code_format [where u = uuid1 and L = ascii_builtins and s = two_peers
      and i = "''a''" and e = "\<lparr>ws = OPEN, roomCode = None, role = None\<rparr>"]
  show ?thesis
    by (simp add: uuid1_ok ascii_builtins_upper uuid1_code uuid2_code take1 two_peers_eq
          delivered.simps)
qed

subsection \<open>Message processing\<close>

lemma map_of_rest_of: "k \<noteq> ''type'' \<Longrightarrow> map_of (rest_of ps) k = map_of ps k"
  unfolding rest_of_def by (induction ps) auto

lemma requestedCode_raises:
  "requestedCode L pl = Inl TypeError \<longleftrightarrow>
     (\<exists>v. map_of pl ''roomCode'' = Some v \<and> truthy_val v \<and> (\<forall>c. v \<noteq> JStr c))"
  by (auto simp: requestedCode_def split: option.splits json.splits)

lemma handleJoinRoom_raises:
  "handleJoinRoom L i pl s = Inl TypeError \<longleftrightarrow>
     sockets s i \<noteq> None \<and> requestedCode L pl = Inl TypeError"
  by (cases "requestedCode L pl")
     (auto simp: handleJoinRoom_def Let_def split: option.splits)

lemma dispatch_raises:
  "dispatch L u i v s = Inl TypeError \<longleftrightarrow>
     v = JNull \<or>
     (\<exists>ps. v = JObj ps \<and> map_of ps ''type'' = Some (JStr ''join_room'') \<and>
        handleJoinRoom L i (rest_of ps) s = Inl TypeError)"
  by (cases v) (auto simp: Let_def)

text \<open>
  C3 does not hold of the code. \<open>handleMessage\<close> is total, and it drops a text that does
  not parse and a message of an unknown type; but it raises a \<open>TypeError\<close>, which no
  handler catches, in exactly two cases: the text parses to \<open>null\<close> (the destructuring
  of \<open>parsed\<close> is outside the \<open>try\<close>), and a \<open>join_room\<close> of a registered connection whose
  \<open>roomCode\<close> is truthy and not a string (it has no \<open>trim\<close>).
\<close>

theorem handleMessage_raises:
  "handleMessage L parse u i d s = Inl TypeError \<longleftrightarrow>
     parse d = Some JNull \<or>
     (\<exists>ps v. parse d = Some (JObj ps) \<and> map_of ps ''type'' = Some (JStr ''join_room'') \<and>
        sockets s i \<noteq> None \<and> map_of ps ''roomCode'' = Some v \<and> truthy_val v \<and>
        (\<forall>c. v \<noteq> JStr c))"
proof (cases "parse d")
  case None
  then show ?thesis by (simp add: handleMessage_def)
next
  case (Some v)
  then show ?thesis
    by (simp add: handleMessage_def dispatch_raises handleJoinRoom_raises
          requestedCode_raises map_of_rest_of)
qed

theorem handleMessage_raises_witness:
  "handleMessage ascii_builtins parse_two uuid1 ''a'' ''null'' two_peers = Inl TypeError \<and>
   handleMessage ascii_builtins parse_two uuid1 ''a'' join_number_text two_peers = Inl TypeError"
  using handleMessage_raises [where L = ascii_builtins and parse = parse_two and u = uuid1
      and i = "''a''" and d = "''null''" and s = two_peers]
    handleMessage_raises [where L = ascii_builtins and parse = parse_two and u = uuid1
      and i = "''a''" and d = join_number_text and s = two_peers]
  by (simp add: two_peers_eq parse_two_def join_number_text_def dquote_def)

subsection \<open>Cleanup of a viewer\<close>

lemma own_viewer_eq:
  "own_viewer =
     \<lparr>sockets = [''a'' \<mapsto> \<lparr>ws = CLOSED, roomCode = Some ''9B1DEB4D'', role = Some Viewer\<rparr>,
                 ''b'' \<mapsto> \<lparr>ws = OPEN, roomCode = Some ''9B1DEB4D'', role = Some Viewer\<rparr>],
      rooms = [''9B1DEB4D'' \<mapsto> \<lparr>adminId = ''a'', participants = [''b'', ''a'']\<rparr>],
      outbox =
        [(''a'', ''socket_id'', [(''socketId'', JStr ''a'')]),
         (''a'', ''room_created'', [(''roomCode'', JStr ''9B1DEB4D'')]),
         (''b'', ''socket_id'', [(''socketId'', JStr ''b'')]),
         (''b'', ''room_joined'', [(''roomCode'', JStr ''9B1DEB4D'')]),
         (''a'', ''viewer_joined'', [(''viewerId'', JStr ''b'')]),
         (''a'', ''room_joined'', [(''roomCode'', JStr ''9B1DEB4D'')]),
         (''a'', ''viewer_joined'', [(''viewerId'', JStr ''a'')])]\<rparr>"
  by (simp add: own_viewer_def handler_defs uuid1_code requested_upper fun_upd_twist)

text \<open>
  C7, as the code has it. Cleanup of a connection \<open>c\<close> whose role is viewer, whose room
  exists and has another connection as its admin: \<open>c\<close> leaves the participants of its
  room and the socket registry, and nothing else changes. The room stays with the same
  admin and the other participants, every other room and every other entry is as it was,
  and nothing is sent.
\<close>

theorem viewer_cleanup_frame:
  "sockets s c = Some e \<and> role e = Some Viewer \<and> roomCode e = Some code \<and> code \<noteq> [] \<and>
   rooms s code = Some r \<and> adminId r \<noteq> c
     \<longrightarrow> rooms (cleanupSocket c s) =
           (rooms s)(code \<mapsto> r\<lparr>participants := set_delete c (participants r)\<rparr>) \<and>
         set (set_delete c (participants r)) = set (participants r) - {c} \<and>
         sockets (cleanupSocket c s) = (sockets s)(c := None) \<and>
         outbox (cleanupSocket c s) = outbox s"
  by (auto simp: cleanupSocket_def set_delete_def)

theorem viewer_cleanup_frame_witness:
  "rooms (cleanupSocket ''b'' room_ab) ''9B1DEB4D'' = Some \<lparr>adminId = ''a'', participants = []\<rparr> \<and>
   sockets (cleanupSocket ''b'' room_ab) ''b'' = None \<and>
   sockets (cleanupSocket ''b'' room_ab) ''a'' = sockets room_ab ''a'' \<and>
   outbox (cleanupSocket ''b'' room_ab) = outbox room_ab"
  using viewer_cleanup_frame [of room_ab "''b''"
      "\<lparr>ws = OPEN, roomCode = Some ''9B1DEB4D'', role = Some Viewer\<rparr>" "''9B1DEB4D''"
      "\<lparr>adminId = ''a'', participants = [''b'']\<rparr>"]
  by (simp add: room_ab_eq set_delete_def)

text \<open>
  C7 as stated fails. In \<open>own_viewer\<close> the role of \<open>a\<close> is viewer, its room is \<open>9B1DEB4D\<close>
  and it is a participant of it; it is also the \<open>adminId\<close> of that room. Cleanup of \<open>a\<close>
  deletes the room, takes role and room from the other viewer \<open>b\<close> and sends it
  \<open>room_closed\<close>.
\<close>

theorem viewer_cleanup_frame_counterexample:
  "sockets own_viewer ''a'' = Some \<lparr>ws = CLOSED, roomCode = Some ''9B1DEB4D'', role = Some Viewer\<rparr> \<and>
   rooms own_viewer ''9B1DEB4D'' = Some \<lparr>adminId = ''a'', participants = [''b'', ''a'']\<rparr> \<and>
   sockets own_viewer ''b'' = Some \<lparr>ws = OPEN, roomCode = Some ''9B1DEB4D'', role = Some Viewer\<rparr> \<and>
   rooms (cleanupSocket ''a'' own_viewer) ''9B1DEB4D'' = None \<and>
   sockets (cleanupSocket ''a'' own_viewer) ''b'' = Some \<lparr>ws = OPEN, roomCode = None, role = None\<rparr> \<and>
   outbox (cleanupSocket ''a'' own_viewer) = outbox own_viewer @ [(''b'', ''room_closed'', [])]"
  by (simp add: own_viewer_eq handler_defs)

subsection \<open>Cleanup of an admin\<close>

lemma rooms_closeParticipant [simp]: "rooms (closeParticipant p s) = rooms s"
  by (simp add: closeParticipant_def Let_def split: option.splits)

lemma sockets_closeParticipant:
  "sockets (closeParticipant p s) =
     (case sockets s p of
        None \<Rightarrow> sockets s
      | Some e \<Rightarrow> (sockets s)(p \<mapsto> e\<lparr>roomCode := None, role := None\<rparr>))"
  by (simp add: closeParticipant_def Let_def split: option.splits)

lemma outbox_closeParticipant:
  "outbox (closeParticipant p s) = outbox s @ delivered s (JStr p) (''room_closed'', [])"
  by (simp add: closeParticipant_def Let_def outbox_sendToSocket split: option.splits)

lemma channel_closeParticipant:
  "map_option ws (sockets (closeParticipant p s) k) = map_option ws (sockets s k)"
  by (simp add: sockets_closeParticipant split: option.splits)

lemma delivered_closeParticipant [simp]:
  "delivered (closeParticipant p s) t m = delivered s t m"
  by (rule delivered_cong) (rule channel_closeParticipant)

lemma rooms_fold_close [simp]: "rooms (fold closeParticipant ps s) = rooms s"
  by (induction ps arbitrary: s) simp_all

lemma delivered_fold_close [simp]:
  "delivered (fold closeParticipant ps s) t m = delivered s t m"
  by (induction ps arbitrary: s) simp_all

lemma outbox_fold_close:
  "outbox (fold closeParticipant ps s) =
     outbox s @ concat (map (\<lambda>p. delivered s (JStr p) (''room_closed'', [])) ps)"
  by (induction ps arbitrary: s) (simp_all add: outbox_closeParticipant)

lemma sockets_fold_close:
  "sockets (fold closeParticipant ps s) k =
     (if k \<in> set ps
      then map_option (\<lambda>e. e\<lparr>roomCode := None, role := None\<rparr>) (sockets s k)
      else sockets s k)"
  by (induction ps arbitrary: s)
     (auto simp: sockets_closeParticipant split: option.splits)

lemma cleanup_unregisters: "sockets (cleanupSocket c s) c = None"
  by (simp add: cleanupSocket_def Let_def split: option.splits)

lemma cleanup_unregistered: "sockets s c = None \<Longrightarrow> cleanupSocket c s = s"
  by (simp add: cleanupSocket_def)

lemma cleanup_idem: "cleanupSocket c (cleanupSocket c s) = cleanupSocket c s"
  by (rule cleanup_unregistered) (rule cleanup_unregisters)

text \<open>
  C1, as the code has it. Cleanup of a registered connection \<open>c\<close> whose room exists and
  has \<open>c\<close> as its \<open>adminId\<close>: \<open>room_closed\<close> is sent to every participant of the room, in
  the order of the set (one \<open>sendToSocket\<close> each); every participant that is registered
  loses its role and its room; no other entry changes; \<open>c\<close> is unregistered; the room is
  deleted and no other room changes. A second cleanup of \<open>c\<close> changes nothing.
\<close>

theorem admin_cleanup:
  "sockets s c = Some e \<and> roomCode e = Some code \<and> code \<noteq> [] \<and>
   rooms s code = Some r \<and> adminId r = c
     \<longrightarrow> outbox (cleanupSocket c s) = outbox s @
           concat (map (\<lambda>p. delivered s (JStr p) (''room_closed'', [])) (participants r)) \<and>
         (\<forall>p \<in> set (participants r). p \<noteq> c \<longrightarrow>
            sockets (cleanupSocket c s) p =
              map_option (\<lambda>x. x\<lparr>roomCode := None, role := None\<rparr>) (sockets s p)) \<and>
         (\<forall>p. p \<notin> set (participants r) \<and> p \<noteq> c \<longrightarrow>
            sockets (cleanupSocket c s) p = sockets s p) \<and>
         sockets (cleanupSocket c s) c = None \<and>
         rooms (cleanupSocket c s) = (rooms s)(code := None) \<and>
         cleanupSocket c (cleanupSocket c s) = cleanupSocket c s"
proof (intro impI, elim conjE)
  assume reg: "sockets s c = Some e" and rc: "roomCode e = Some code" and ne: "code \<noteq> []"
    and ex: "rooms s code = Some r" and adm: "adminId r = c"
  let ?s2 = "fold closeParticipant (participants r) s"
  have run: "cleanupSocket c s =
      ?s2\<lparr>rooms := (rooms ?s2)(code := None), sockets := (sockets ?s2)(c := None)\<rparr>"
    using reg rc ne ex adm by (simp add: cleanupSocket_def Let_def)
  show "outbox (cleanupSocket c s) = outbox s @
           concat (map (\<lambda>p. delivered s (JStr p) (''room_closed'', [])) (participants r)) \<and>
         (\<forall>p \<in> set (participants r). p \<noteq> c \<longrightarrow>
            sockets (cleanupSocket c s) p =
              map_option (\<lambda>x. x\<lparr>roomCode := None, role := None\<rparr>) (sockets s p)) \<and>
         (\<forall>p. p \<notin> set (participants r) \<and> p \<noteq> c \<longrightarrow>
            sockets (cleanupSocket c s) p = sockets s p) \<and>
         sockets (cleanupSocket c s) c = None \<and>
         rooms (cleanupSocket c s) = (rooms s)(code := None) \<and>
         cleanupSocket c (cleanupSocket c s) = cleanupSocket c s"
    by (simp add: cleanup_idem) (simp add: run outbox_fold_close sockets_fold_close)
qed

lemma second_room_eq:
  "second_room =
     \<lparr>sockets = [''a'' \<mapsto> \<lparr>ws = OPEN, roomCode = Some ''1C5E7A90'', role = Some Admin\<rparr>,
                 ''b'' \<mapsto> \<lparr>ws = OPEN, roomCode = Some ''9B1DEB4D'', role = Some Viewer\<rparr>],
      rooms = [''9B1DEB4D'' \<mapsto> \<lparr>adminId = ''a'', participants = [''b'']\<rparr>,
               ''1C5E7A90'' \<mapsto> \<lparr>adminId = ''a'', participants = []\<rparr>],
      outbox =
        [(''a'', ''socket_id'', [(''socketId'', JStr ''a'')]),
         (''a'', ''room_created'', [(''roomCode'', JStr ''9B1DEB4D'')]),
         (''b'', ''socket_id'', [(''socketId'', JStr ''b'')]),
         (''b'', ''room_joined'', [(''roomCode'', JStr ''9B1DEB4D'')]),
         (''a'', ''viewer_joined'', [(''viewerId'', JStr ''b'')]),
         (''a'', ''room_created'', [(''roomCode'', JStr ''1C5E7A90'')])]\<rparr>"
  by (simp add: second_room_def handler_defs uuid1_code uuid2_code requested_upper fun_upd_twist)

text \<open>
  C1 as stated fails. In \<open>second_room\<close> the connection \<open>a\<close> is registered and is the
  \<open>adminId\<close> of the existing room \<open>9B1DEB4D\<close>, which it created before it created
  \<open>1C5E7A90\<close>. Cleanup of \<open>a\<close> looks at the room of its entry only: \<open>9B1DEB4D\<close> stays in
  the registry, its participant \<open>b\<close> keeps role and room, and nothing is sent.
\<close>

theorem admin_cleanup_counterexample:
  "sockets second_room ''a'' \<noteq> None \<and>
   rooms second_room ''9B1DEB4D'' = Some \<lparr>adminId = ''a'', participants = [''b'']\<rparr> \<and>
   rooms (cleanupSocket ''a'' second_room) ''9B1DEB4D'' =
     Some \<lparr>adminId = ''a'', participants = [''b'']\<rparr> \<and>
   sockets (cleanupSocket ''a'' second_room) ''b'' =
     Some \<lparr>ws = OPEN, roomCode = Some ''9B1DEB4D'', role = Some Viewer\<rparr> \<and>
   outbox (cleanupSocket ''a'' second_room) = outbox second_room"
  by (simp add: second_room_eq handler_defs)

theorem admin_cleanup_witness:
  "outbox (cleanupSocket ''a'' room_ab) = outbox room_ab @ [(''b'', ''room_closed'', [])] \<and>
   sockets (cleanupSocket ''a'' room_ab) ''b'' = Some \<lparr>ws = OPEN, roomCode = None, role = None\<rparr> \<and>
   sockets (cleanupSocket ''a'' room_ab) ''a'' = None \<and>
   rooms (cleanupSocket ''a'' room_ab) ''9B1DEB4D'' = None \<and>
   cleanupSocket ''a'' (cleanupSocket ''a'' room_ab) = cleanupSocket ''a'' room_ab"
  using admin_cleanup [of room_ab "''a''"
      "\<lparr>ws = OPEN, roomCode = Some ''9B1DEB4D'', role = Some Admin\<rparr>" "''9B1DEB4D''"
      "\<lparr>adminId = ''a'', participants = [''b'']\<rparr>"]
  by (simp add: room_ab_eq delivered.simps)


subsection \<open>The room invariant over runs\<close>


lemma registries_handleOffer [simp]:
  "sockets (handleOffer i pl s) = sockets s" "rooms (handleOffer i pl s) = rooms s"
  by (auto simp: handleOffer_def split: option.splits)

lemma registries_handleAnswer [simp]:
  "sockets (handleAnswer i pl s) = sockets s" "rooms (handleAnswer i pl s) = rooms s"
  by (auto simp: handleAnswer_def split: option.splits)

lemma registries_handleIceCandidate [simp]:
  "sockets (handleIceCandidate i pl s) = sockets s" "rooms (handleIceCandidate i pl s) = rooms s"
  by (auto simp: handleIceCandidate_def split: option.splits)






















end
